theory Spec2Isabelle
  imports Complex_Main
begin

section \<open>The health report page: data model\<close>

text \<open>
  The development embeds \<^verbatim>\<open>src/pages/HealthReport.tsx\<close>: the React component
  \<^verbatim>\<open>HealthReport\<close> with its mount effect, its fetch handlers, its render function and
  the PDF export \<^verbatim>\<open>generatePDF\<close>.

  A JavaScript string is a \<^typ>\<open>string\<close> holding its UTF-8 bytes. A value that may be
  \<^verbatim>\<open>null\<close> or \<^verbatim>\<open>undefined\<close> is an \<^typ>\<open>'a option\<close>, with \<^term>\<open>None\<close> for both.
\<close>

subsection \<open>JavaScript numbers\<close>

text \<open>
  A JavaScript number is a double: a finite value, one of the two infinities, or NaN.
  The finite values are embedded in \<^typ>\<open>real\<close>; the page only compares numbers with
  \<^verbatim>\<open>>\<close>, which on finite doubles is the order of the reals, is false whenever an operand
  is NaN, and puts the infinities at the two ends.
\<close>

datatype number = NaN | NegInfinity | Finite real | PosInfinity

fun gt :: "number \<Rightarrow> number \<Rightarrow> bool" where
  "gt NaN b = False"
| "gt a NaN = False"
| "gt NegInfinity b = False"
| "gt (Finite x) NegInfinity = True"
| "gt (Finite x) (Finite y) = (y < x)"
| "gt (Finite x) PosInfinity = False"
| "gt PosInfinity PosInfinity = False"
| "gt PosInfinity b = True"

subsection \<open>Optional chaining and nullish coalescing\<close>

definition chain :: "'a option \<Rightarrow> ('a \<Rightarrow> 'b option) \<Rightarrow> 'b option" where
  \<comment> \<open>\<^verbatim>\<open>obj?.field\<close>\<close>
  "chain obj field = (case obj of None \<Rightarrow> None | Some r \<Rightarrow> field r)"

definition nullish :: "'a option \<Rightarrow> 'a \<Rightarrow> 'a" where
  \<comment> \<open>\<^verbatim>\<open>value ?? fallback\<close>\<close>
  "nullish v fallback = (case v of None \<Rightarrow> fallback | Some x \<Rightarrow> x)"

definition index0 :: "'a list \<Rightarrow> 'a option" where
  \<comment> \<open>\<^verbatim>\<open>data[0]\<close> on an array: \<^verbatim>\<open>undefined\<close> when the array is empty\<close>
  "index0 data = (case data of [] \<Rightarrow> None | x # rest \<Rightarrow> Some x)"

subsection \<open>Records\<close>

text \<open>
  Modelled from the spec: the type \<^verbatim>\<open>Patient\<close> of \<^verbatim>\<open>./patient.type\<close>, which is not
  among the sources. The spec gives a patient record an identifier, a name, an age, a
  report date and a numeric risk score; the field names and types are those the page
  reads (\<^verbatim>\<open>Name\<close>, \<^verbatim>\<open>Age\<close>, \<^verbatim>\<open>Report_Date\<close>, \<^verbatim>\<open>riskScore\<close>) and queries
  (\<^verbatim>\<open>Patient_ID\<close>). Every field may be missing from the JSON that was fetched.
\<close>

record Patient =
  Patient_ID :: "string option"
  Name :: "string option"
  Age :: "number option"
  Report_Date :: "string option"
  riskScore :: "number option"

text \<open>
  The view-model, \<^verbatim>\<open>interface HealthReportData\<close>. Its field \<^verbatim>\<open>riskScore\<close> is
  named \<open>reportRiskScore\<close> here, the name \<open>riskScore\<close> being the patient's.
\<close>

record HealthReportData =
  patientName :: string
  age :: number
  assessmentDate :: string
  reportRiskScore :: number
  keyFindings :: "string list"
  recommendations :: "string list"
  nextSteps :: "string list"

subsection \<open>Effects and the component's state\<close>

datatype js_error = TypeError string | SyntaxError string

text \<open>A jsPDF document is the sequence of calls made on it.\<close>

datatype pdf_op = SetFontSize int | Text string int int

datatype effect =
    Navigate string
  | Fetch string
  | ConsoleError js_error
  | Save string "pdf_op list"

text \<open>
  The three \<^verbatim>\<open>useState\<close> cells, and the log of what the page did to the world outside
  it, oldest first.
\<close>

record page =
  report :: "HealthReportData option"
  patientData :: "Patient option"
  loading :: bool
  effects :: "effect list"

definition initial :: page where
  "initial = \<lparr>report = None, patientData = None, loading = True, effects = []\<rparr>"

type_synonym storage = "string \<rightharpoonup> string"

definition getItem :: "storage \<Rightarrow> string \<Rightarrow> string option" where
  "getItem sessionStorage key = sessionStorage key"

text \<open>
  What the request settles to: \<^verbatim>\<open>fetch\<close> rejects, or resolves with a response whose
  \<^verbatim>\<open>json()\<close> rejects or resolves with the parsed body. The annotation
  \<^verbatim>\<open>data: Patient[]\<close> is not checked when the page runs and the status of the response
  is never read, so the body is any JSON value: \<^verbatim>\<open>null\<close>, a boolean, a number, a
  string, an array or an object. The handler reads \<^verbatim>\<open>data[0]\<close> of it and nothing else,
  so an object is given by what its property \<^verbatim>\<open>0\<close> holds, if it has one; the records
  themselves are taken at the type \<^verbatim>\<open>Patient\<close>.
\<close>

datatype json =
    JsonNull
  | JsonBoolean bool
  | JsonNumber number
  | JsonString string
  | JsonArray "Patient list"
  | JsonObject "Patient option"

datatype response = Response "js_error + json"

type_synonym fetch_outcome = "js_error + response"

section \<open>The report loader\<close>

definition defaultKeyFindings :: "string list" where
  "defaultKeyFindings =
    [''Elevated bilirubin levels (2.5 mg/dL)'',
     ''Normal albumin levels'',
     ''Platelet count within range'',
     ''Slightly elevated prothrombin time'']"

definition defaultRecommendations :: "string list" where
  "defaultRecommendations =
    [''Regular monitoring of liver function tests'',
     ''Maintain healthy diet and exercise routine'',
     ''Avoid alcohol consumption'',
     ''Schedule follow-up in 3 months'']"

definition defaultNextSteps :: "string list" where
  "defaultNextSteps =
    [''Book appointment with hepatologist'',
     ''Complete follow-up blood tests'',
     ''Join liver health support group'',
     ''Download patient education materials'']"

definition toReport :: "Patient option \<Rightarrow> HealthReportData" where
  \<comment> \<open>the object literal passed to \<^verbatim>\<open>setReport\<close>\<close>
  "toReport patient =
    \<lparr>patientName = nullish (chain patient Name) ''Unknown'',
     age = nullish (chain patient Age) (Finite 0),
     assessmentDate = nullish (chain patient Report_Date) '''',
     reportRiskScore = nullish (chain patient riskScore) (Finite 0),
     keyFindings = defaultKeyFindings,
     recommendations = defaultRecommendations,
     nextSteps = defaultNextSteps\<rparr>"

definition fieldless :: Patient where
  \<comment> \<open>what the page reads of a value that is no record: none of the fields\<close>
  "fieldless =
    \<lparr>Patient_ID = None, Name = None, Age = None, Report_Date = None, riskScore = None\<rparr>"

definition elementAt0 :: "json \<Rightarrow> js_error + Patient option" where
  \<comment> \<open>\<^verbatim>\<open>data[0]\<close> on the parsed body: reading a property of \<^verbatim>\<open>null\<close> throws a
      TypeError (its message is the engine's); a boolean and a number have no property
      \<^verbatim>\<open>0\<close>; a string gives its first character, a value without fields\<close>
  "elementAt0 data =
    (case data of
       JsonNull \<Rightarrow> Inl (TypeError ''Cannot read properties of null'')
     | JsonBoolean b \<Rightarrow> Inr None
     | JsonNumber n \<Rightarrow> Inr None
     | JsonString s \<Rightarrow> Inr (if s = [] then None else Some fieldless)
     | JsonArray records \<Rightarrow> Inr (index0 records)
     | JsonObject property0 \<Rightarrow> Inr property0)"

definition onData :: "json \<Rightarrow> page \<Rightarrow> js_error + page" where
  \<comment> \<open>the second \<^verbatim>\<open>.then\<close> handler; \<open>Inl\<close> is what it throws, before any state is
      set\<close>
  "onData data pg =
    (case elementAt0 data of
       Inl thrown \<Rightarrow> Inl thrown
     | Inr patient \<Rightarrow>
         Inr (pg\<lparr>patientData := patient, report := Some (toReport patient),
                 loading := False\<rparr>))"

definition onError :: "js_error \<Rightarrow> page \<Rightarrow> page" where
  \<comment> \<open>the \<^verbatim>\<open>.catch\<close> handler\<close>
  "onError err pg = pg\<lparr>effects := effects pg @ [ConsoleError err], loading := False\<rparr>"

definition settle :: "fetch_outcome \<Rightarrow> page \<Rightarrow> page" where
  \<comment> \<open>the promise chain \<^verbatim>\<open>fetch(..).then(res => res.json()).then(..).catch(..)\<close>: the
      \<^verbatim>\<open>.catch\<close> handler takes a rejection of either promise and what the handler
      throws\<close>
  "settle outcome pg =
    (case outcome of
       Inl err \<Rightarrow> onError err pg
     | Inr (Response body) \<Rightarrow>
         (case body of
            Inl err \<Rightarrow> onError err pg
          | Inr data \<Rightarrow>
              (case onData data pg of
                 Inl thrown \<Rightarrow> onError thrown pg
               | Inr pg' \<Rightarrow> pg')))"

definition falsy :: "string option \<Rightarrow> bool" where
  \<comment> \<open>\<^verbatim>\<open>!patientId\<close> for a string or \<^verbatim>\<open>null\<close>\<close>
  "falsy s = (case s of None \<Rightarrow> True | Some v \<Rightarrow> v = [])"

definition requestUrl :: "string \<Rightarrow> string" where
  "requestUrl patientId = ''http://localhost:3001/liverData/?Patient_ID='' @ patientId"

definition mountEffect :: "storage \<Rightarrow> page \<Rightarrow> page \<times> bool" where
  \<comment> \<open>the synchronous part of the \<^verbatim>\<open>useEffect\<close> callback; the flag tells whether a
      request was started\<close>
  "mountEffect sessionStorage pg =
    (let patientId = getItem sessionStorage ''patientId''
     in if falsy patientId
        then (pg\<lparr>effects := effects pg @ [Navigate ''/login'']\<rparr>, False)
        else (pg\<lparr>effects := effects pg @ [Fetch (requestUrl (nullish patientId []))]\<rparr>, True))"

definition loadPage :: "storage \<Rightarrow> fetch_outcome \<Rightarrow> page" where
  \<comment> \<open>the page from its mount until its request, if it made one, has settled\<close>
  "loadPage sessionStorage outcome =
    (case mountEffect sessionStorage initial of
       (pg, False) \<Rightarrow> pg
     | (pg, True) \<Rightarrow> settle outcome pg)"

section \<open>The renderer\<close>

definition riskClass :: "Patient option \<Rightarrow> string" where
  \<comment> \<open>the colour class of the risk score paragraph\<close>
  "riskClass pd =
    (if gt (nullish (chain pd riskScore) (Finite 0)) (Finite 70) then ''text-red-600''
     else if gt (nullish (chain pd riskScore) (Finite 0)) (Finite 40) then ''text-yellow-600''
     else ''text-green-600'')"

record report_view =
  nameShown :: string
  dateShown :: string
  riskClassName :: string
  riskShown :: string
  sections :: "(string \<times> string list) list"

datatype view =
    Spinner
  | NotFound string string
  | ReportView report_view

definition render :: "(number \<Rightarrow> string) \<Rightarrow> page \<Rightarrow> view" where
  \<comment> \<open>the component's return value; \<open>toFixed1\<close> is \<^verbatim>\<open>Number.prototype.toFixed\<close> at one
      digit\<close>
  "render toFixed1 pg =
    (if loading pg then Spinner
     else case report pg of
       None \<Rightarrow> NotFound ''Report Not Found'' ''The requested health report could not be found.''
     | Some rep \<Rightarrow>
         ReportView
           \<lparr>nameShown = nullish (chain (patientData pg) Name) ''N/A'',
            dateShown = nullish (chain (patientData pg) Report_Date) ''N/A'',
            riskClassName = riskClass (patientData pg),
            riskShown = toFixed1 (nullish (chain (patientData pg) riskScore) (Finite 0)) @ ''%'',
            sections =
              [(''Key Findings'', keyFindings rep),
               (''Recommendations'', recommendations rep),
               (''Next Steps'', nextSteps rep)]\<rparr>)"

section \<open>The document exporter\<close>

definition bullet :: string where
  \<comment> \<open>U+2022 in UTF-8\<close>
  "bullet = [CHR 0xE2, CHR 0x80, CHR 0xA2]"

definition emitItem :: "string \<Rightarrow> pdf_op list \<times> int \<Rightarrow> pdf_op list \<times> int" where
  \<comment> \<open>the body of \<^verbatim>\<open>items.forEach\<close>, on the document and \<^verbatim>\<open>yPos\<close>\<close>
  "emitItem item = (\<lambda>(doc, yPos). (doc @ [Text (bullet @ '' '' @ item) 25 yPos], yPos + 10))"

definition addSection :: "string \<Rightarrow> string list \<Rightarrow> pdf_op list \<times> int \<Rightarrow> pdf_op list \<times> int" where
  "addSection title items = (\<lambda>(doc, yPos).
     (let doc1 = doc @ [SetFontSize 14, Text title 20 yPos];
          yPos1 = yPos + 10;
          doc2 = doc1 @ [SetFontSize 12];
          (doc3, yPos3) = fold emitItem items (doc2, yPos1)
      in (doc3, yPos3 + 10)))"

definition buildDocument ::
  "(number \<Rightarrow> string) \<Rightarrow> (number \<Rightarrow> string) \<Rightarrow> HealthReportData \<Rightarrow> pdf_op list \<times> int" where
  \<comment> \<open>\<^verbatim>\<open>generatePDF\<close> from \<^verbatim>\<open>new jsPDF()\<close> to the last \<^verbatim>\<open>addSection\<close>; \<open>toStr\<close> is the
      conversion of a number inside a template literal\<close>
  "buildDocument toStr toFixed1 rep =
    (let yPos = 20;
         doc = [SetFontSize 20, Text ''Liver Health Assessment Report'' 20 yPos];
         yPos = yPos + 20;
         doc = doc @ [SetFontSize 12,
                 Text (''Patient: '' @ patientName rep) 20 yPos,
                 Text (''Age: '' @ toStr (age rep)) 20 (yPos + 10),
                 Text (''Assessment Date: '' @ assessmentDate rep) 20 (yPos + 20),
                 Text (''Risk Score: '' @ toFixed1 (reportRiskScore rep) @ ''%'') 20 (yPos + 30)];
         yPos = yPos + 50
     in addSection ''Next Steps'' (nextSteps rep)
          (addSection ''Recommendations'' (recommendations rep)
             (addSection ''Key Findings'' (keyFindings rep) (doc, yPos))))"

definition fileName :: "storage \<Rightarrow> string" where
  "fileName sessionStorage =
    ''liver-health-report-'' @ nullish (getItem sessionStorage ''patientId'') ''report'' @ ''.pdf''"

definition generatePDF ::
  "(number \<Rightarrow> string) \<Rightarrow> (number \<Rightarrow> string) \<Rightarrow> storage \<Rightarrow> page \<Rightarrow> page" where
  "generatePDF toStr toFixed1 sessionStorage pg =
    (case report pg of
       None \<Rightarrow> pg
     | Some rep \<Rightarrow>
         pg\<lparr>effects := effects pg @
               [Save (fileName sessionStorage) (fst (buildDocument toStr toFixed1 rep))]\<rparr>)"

section \<open>The exported document, as the specification words it\<close>

text \<open>
  The specification describes the document by its layout: a title, four labelled fields
  at fixed heights, then three sections, each a heading followed by one bulleted line per
  item, every line ten units below the one before and ten more units after a section.
  The definitions below follow that description; \<^term>\<open>buildDocument\<close> above follows
  the code.
\<close>

text \<open>
  A bulleted line is the item after the bullet character U+2022 (the bytes E2 80 A2 in
  UTF-8) and a space.
\<close>

primrec spec_bullets :: "string list \<Rightarrow> int \<Rightarrow> pdf_op list" where
  "spec_bullets [] y = []"
| "spec_bullets (item # items) y =
     Text ([CHR 0xE2, CHR 0x80, CHR 0xA2] @ '' '' @ item) 25 y # spec_bullets items (y + 10)"

definition spec_section :: "string \<Rightarrow> string list \<Rightarrow> int \<Rightarrow> pdf_op list" where
  "spec_section title items y =
    [SetFontSize 14, Text title 20 y, SetFontSize 12] @ spec_bullets items (y + 10)"

definition spec_section_end :: "string list \<Rightarrow> int \<Rightarrow> int" where
  \<comment> \<open>where the cursor stands after a section that started at \<open>y\<close>\<close>
  "spec_section_end items y = y + 10 + 10 * int (length items) + 10"

definition spec_document ::
  "(number \<Rightarrow> string) \<Rightarrow> (number \<Rightarrow> string) \<Rightarrow> HealthReportData \<Rightarrow> pdf_op list" where
  "spec_document toStr toFixed1 rep =
    [SetFontSize 20,
     Text ''Liver Health Assessment Report'' 20 20,
     SetFontSize 12,
     Text (''Patient: '' @ patientName rep) 20 40,
     Text (''Age: '' @ toStr (age rep)) 20 50,
     Text (''Assessment Date: '' @ assessmentDate rep) 20 60,
     Text (''Risk Score: '' @ toFixed1 (reportRiskScore rep) @ ''%'') 20 70]
    @ spec_section ''Key Findings'' (keyFindings rep) 90
    @ spec_section ''Recommendations'' (recommendations rep)
        (spec_section_end (keyFindings rep) 90)
    @ spec_section ''Next Steps'' (nextSteps rep)
        (spec_section_end (recommendations rep) (spec_section_end (keyFindings rep) 90))"

section \<open>Facts about the loader\<close>

lemma mountEffect_absent:
  "falsy (getItem st ''patientId'') \<Longrightarrow>
     mountEffect st pg = (pg\<lparr>effects := effects pg @ [Navigate ''/login'']\<rparr>, False)"
  by (simp add: mountEffect_def)

lemma mountEffect_present:
  "getItem st ''patientId'' = Some ident \<Longrightarrow> ident \<noteq> [] \<Longrightarrow>
     mountEffect st pg = (pg\<lparr>effects := effects pg @ [Fetch (requestUrl ident)]\<rparr>, True)"
  by (simp add: mountEffect_def falsy_def nullish_def)

lemma loadPage_absent:
  "falsy (getItem st ''patientId'') \<Longrightarrow>
     loadPage st outcome = initial\<lparr>effects := [Navigate ''/login'']\<rparr>"
  by (simp add: loadPage_def mountEffect_absent initial_def)

lemma loadPage_present:
  "getItem st ''patientId'' = Some ident \<Longrightarrow> ident \<noteq> [] \<Longrightarrow>
     loadPage st outcome = settle outcome (initial\<lparr>effects := [Fetch (requestUrl ident)]\<rparr>)"
  by (simp add: loadPage_def mountEffect_present initial_def)

lemma loadPage_body:
  "getItem st ''patientId'' = Some ident \<Longrightarrow> ident \<noteq> [] \<Longrightarrow>
   elementAt0 data = Inr patient \<Longrightarrow>
     loadPage st (Inr (Response (Inr data))) =
       \<lparr>report = Some (toReport patient), patientData = patient, loading = False,
        effects = [Fetch (requestUrl ident)]\<rparr>"
  by (simp add: loadPage_present settle_def onData_def initial_def)

lemma loadPage_resolved:
  "getItem st ''patientId'' = Some ident \<Longrightarrow> ident \<noteq> [] \<Longrightarrow>
     loadPage st (Inr (Response (Inr (JsonArray data)))) =
       \<lparr>report = Some (toReport (index0 data)), patientData = index0 data, loading = False,
        effects = [Fetch (requestUrl ident)]\<rparr>"
  by (rule loadPage_body) (simp_all add: elementAt0_def)

lemma loadPage_rejected:
  "getItem st ''patientId'' = Some ident \<Longrightarrow> ident \<noteq> [] \<Longrightarrow>
   outcome = Inl err \<or> outcome = Inr (Response (Inl err)) \<Longrightarrow>
     loadPage st outcome =
       \<lparr>report = None, patientData = None, loading = False,
        effects = [Fetch (requestUrl ident), ConsoleError err]\<rparr>"
  by (auto simp add: loadPage_present settle_def onError_def initial_def)

lemma loadPage_null:
  "getItem st ''patientId'' = Some ident \<Longrightarrow> ident \<noteq> [] \<Longrightarrow>
     loadPage st (Inr (Response (Inr JsonNull))) =
       \<lparr>report = None, patientData = None, loading = False,
        effects = [Fetch (requestUrl ident),
                   ConsoleError (TypeError ''Cannot read properties of null'')]\<rparr>"
  by (simp add: loadPage_present settle_def onData_def elementAt0_def onError_def initial_def)

lemma elementAt0_cases:
  obtains "data = JsonNull" | patient where "data \<noteq> JsonNull" and "elementAt0 data = Inr patient"
  by (cases data) (simp_all add: elementAt0_def)

lemma outcome_cases:
  fixes outcome :: fetch_outcome
  obtains err where "outcome = Inl err"
  | err where "outcome = Inr (Response (Inl err))"
  | data where "outcome = Inr (Response (Inr data))"
proof (cases outcome)
  case (Inl e)
  then show ?thesis using that by blast
next
  case (Inr r)
  then show ?thesis
  proof (cases r)
    case (Response body)
    with Inr show ?thesis using that by (cases body) auto
  qed
qed

lemma example_storage: "getItem [''patientId'' \<mapsto> ''7''] ''patientId'' = Some ''7''"
  by (simp add: getItem_def)

subsection \<open>The view-model and the display state\<close>

text \<open>
  C1, as the specification states it, fails. The page asked for patient 7 and the server
  answered with the empty array: \<^verbatim>\<open>data[0]\<close> is \<^verbatim>\<open>undefined\<close>, the optional chains
  give the defaults, \<^verbatim>\<open>setReport\<close> stores a view-model, and the page does not show
  the "Report Not Found" screen.
\<close>

theorem empty_array_counterexample:
  "report (loadPage [''patientId'' \<mapsto> ''7''] (Inr (Response (Inr (JsonArray []))))) =
     Some \<lparr>patientName = ''Unknown'', age = Finite 0, assessmentDate = '''',
           reportRiskScore = Finite 0,
           keyFindings = defaultKeyFindings, recommendations = defaultRecommendations,
           nextSteps = defaultNextSteps\<rparr> \<and>
   render (\<lambda>n. ''0.0'')
       (loadPage [''patientId'' \<mapsto> ''7''] (Inr (Response (Inr (JsonArray []))))) \<noteq>
     NotFound ''Report Not Found'' ''The requested health report could not be found.''"
  by (simp add: loadPage_def mountEffect_def getItem_def falsy_def nullish_def initial_def
      settle_def onData_def elementAt0_def index0_def toReport_def chain_def render_def)

text \<open>
  C1, amended. The page has an identifier and so makes its request. While the request is
  pending the page shows the loading state. Once the request has settled, loading has
  ended, and
  \<^item> the view-model exists if and only if the fetch resolved and its body parsed to a JSON
    value other than \<^verbatim>\<open>null\<close>, whether or not that value holds a record;
  \<^item> the "Report Not Found" screen is shown if and only if the fetch was rejected, the
    body did not parse, or the body parsed to \<^verbatim>\<open>null\<close> (reading \<^verbatim>\<open>data[0]\<close> then
    throws and the \<^verbatim>\<open>.catch\<close> handler runs);
  \<^item> for the empty array the page shows the report screen filled with the defaults.
\<close>

theorem view_model_iff_fetch_resolved:
  assumes "getItem st ''patientId'' = Some ident" and "ident \<noteq> []"
  shows "render toFixed1 (fst (mountEffect st initial)) = Spinner \<and>
    loading (loadPage st outcome) = False \<and>
    (report (loadPage st outcome) \<noteq> None) =
      (\<exists>data. outcome = Inr (Response (Inr data)) \<and> data \<noteq> JsonNull) \<and>
    (render toFixed1 (loadPage st outcome) =
        NotFound ''Report Not Found'' ''The requested health report could not be found.'')
      = ((\<exists>err. outcome = Inl err \<or> outcome = Inr (Response (Inl err))) \<or>
         outcome = Inr (Response (Inr JsonNull))) \<and>
    render toFixed1 (loadPage st (Inr (Response (Inr (JsonArray []))))) =
      ReportView
        \<lparr>nameShown = ''N/A'', dateShown = ''N/A'', riskClassName = ''text-green-600'',
         riskShown = toFixed1 (Finite 0) @ ''%'',
         sections =
           [(''Key Findings'', defaultKeyFindings),
            (''Recommendations'', defaultRecommendations),
            (''Next Steps'', defaultNextSteps)]\<rparr>"
proof -
  have pending: "render toFixed1 (fst (mountEffect st initial)) = Spinner"
    using mountEffect_present [OF assms, of initial] by (simp add: render_def initial_def)
  have empty: "render toFixed1 (loadPage st (Inr (Response (Inr (JsonArray []))))) =
      ReportView
        \<lparr>nameShown = ''N/A'', dateShown = ''N/A'', riskClassName = ''text-green-600'',
         riskShown = toFixed1 (Finite 0) @ ''%'',
         sections =
           [(''Key Findings'', defaultKeyFindings),
            (''Recommendations'', defaultRecommendations),
            (''Next Steps'', defaultNextSteps)]\<rparr>"
    using loadPage_resolved [OF assms, of "[]"]
    by (simp add: render_def index0_def toReport_def chain_def nullish_def riskClass_def)
  have settled: "loading (loadPage st outcome) = False \<and>
    (report (loadPage st outcome) \<noteq> None) =
      (\<exists>data. outcome = Inr (Response (Inr data)) \<and> data \<noteq> JsonNull) \<and>
    (render toFixed1 (loadPage st outcome) =
        NotFound ''Report Not Found'' ''The requested health report could not be found.'')
      = ((\<exists>err. outcome = Inl err \<or> outcome = Inr (Response (Inl err))) \<or>
         outcome = Inr (Response (Inr JsonNull)))"
  proof (cases outcome rule: outcome_cases)
    case (1 err)
    then show ?thesis
      using loadPage_rejected [OF assms, of outcome err] by (simp add: render_def)
  next
    case (2 err)
    then show ?thesis
      using loadPage_rejected [OF assms, of outcome err] by (simp add: render_def)
  next
    case (3 data)
    show ?thesis
    proof (cases data rule: elementAt0_cases)
      case 1
      with 3 show ?thesis
        using loadPage_null [OF assms] by (simp add: render_def)
    next
      case (2 patient)
      with 3 show ?thesis
        using loadPage_body [OF assms, of data patient] by (simp add: render_def)
    qed
  qed
  from pending settled empty show ?thesis by blast
qed

theorem view_model_iff_fetch_resolved_witness:
  "render (\<lambda>n. ''0.0'') (fst (mountEffect [''patientId'' \<mapsto> ''7''] initial)) = Spinner \<and>
   report (loadPage [''patientId'' \<mapsto> ''7''] (Inl (TypeError ''Failed to fetch''))) = None \<and>
   loading (loadPage [''patientId'' \<mapsto> ''7''] (Inl (TypeError ''Failed to fetch''))) = False \<and>
   render (\<lambda>n. ''0.0'') (loadPage [''patientId'' \<mapsto> ''7''] (Inr (Response (Inr JsonNull)))) =
      NotFound ''Report Not Found'' ''The requested health report could not be found.'' \<and>
   report (loadPage [''patientId'' \<mapsto> ''7''] (Inr (Response (Inr (JsonObject None))))) \<noteq> None \<and>
   render (\<lambda>n. ''0.0'')
       (loadPage [''patientId'' \<mapsto> ''7''] (Inr (Response (Inr (JsonArray []))))) =
      ReportView
        \<lparr>nameShown = ''N/A'', dateShown = ''N/A'', riskClassName = ''text-green-600'',
         riskShown = ''0.0%'',
         sections =
           [(''Key Findings'', defaultKeyFindings),
            (''Recommendations'', defaultRecommendations),
            (''Next Steps'', defaultNextSteps)]\<rparr>"
proof -
  have ident: "''7'' \<noteq> []" by simp
  note inst = view_model_iff_fetch_resolved [OF example_storage ident]
  show ?thesis
    using inst [of "\<lambda>n. ''0.0''" "Inl (TypeError ''Failed to fetch'')"]
      inst [of "\<lambda>n. ''0.0''" "Inr (Response (Inr JsonNull))"]
      inst [of "\<lambda>n. ''0.0''" "Inr (Response (Inr (JsonObject None)))"]
    by simp
qed

subsection \<open>The mapping from a record to the view-model\<close>

text \<open>
  C3. For every fetched record the second \<^verbatim>\<open>.then\<close> handler runs to its end: the
  view-model is stored, loading ends and nothing reaches the \<^verbatim>\<open>.catch\<close> handler (the
  log holds the request only). A missing name gives "Unknown", a missing age 0, a missing
  report date the empty string and a missing risk score 0; a field that is present is
  copied.
\<close>

theorem missing_fields_get_defaults:
  assumes "getItem st ''patientId'' = Some ident" and "ident \<noteq> []"
  shows "\<exists>rep. loadPage st (Inr (Response (Inr (JsonArray (p # rest))))) =
      \<lparr>report = Some rep, patientData = Some p, loading = False,
       effects = [Fetch (requestUrl ident)]\<rparr> \<and>
    (Name p = None \<longrightarrow> patientName rep = ''Unknown'') \<and>
    (Age p = None \<longrightarrow> age rep = Finite 0) \<and>
    (Report_Date p = None \<longrightarrow> assessmentDate rep = '''') \<and>
    (riskScore p = None \<longrightarrow> reportRiskScore rep = Finite 0) \<and>
    (\<forall>v. Name p = Some v \<longrightarrow> patientName rep = v) \<and>
    (\<forall>v. Age p = Some v \<longrightarrow> age rep = v) \<and>
    (\<forall>v. Report_Date p = Some v \<longrightarrow> assessmentDate rep = v) \<and>
    (\<forall>v. riskScore p = Some v \<longrightarrow> reportRiskScore rep = v)"
  using loadPage_resolved [OF assms, of "p # rest"]
  by (simp add: index0_def toReport_def chain_def nullish_def)

theorem missing_fields_get_defaults_witness:
  "loadPage [''patientId'' \<mapsto> ''7'']
     (Inr (Response (Inr (JsonArray [\<lparr>Patient_ID = Some ''7'', Name = None, Age = None,
        Report_Date = None, riskScore = None\<rparr>])))) =
     \<lparr>report = Some \<lparr>patientName = ''Unknown'', age = Finite 0, assessmentDate = '''',
         reportRiskScore = Finite 0, keyFindings = defaultKeyFindings,
         recommendations = defaultRecommendations, nextSteps = defaultNextSteps\<rparr>,
      patientData = Some \<lparr>Patient_ID = Some ''7'', Name = None, Age = None,
        Report_Date = None, riskScore = None\<rparr>,
      loading = False,
      effects = [Fetch ''http://localhost:3001/liverData/?Patient_ID=7'']\<rparr>"
  using missing_fields_get_defaults [of "[''patientId'' \<mapsto> ''7'']" "''7''"
      "\<lparr>Patient_ID = Some ''7'', Name = None, Age = None, Report_Date = None,
        riskScore = None\<rparr>" "[]"]
  by (auto simp add: getItem_def requestUrl_def toReport_def chain_def nullish_def index0_def
      loadPage_def mountEffect_def falsy_def settle_def onData_def elementAt0_def initial_def)

text \<open>
  C9. For every array the request resolves with, the three lists of the view-model are
  the literal lists of four strings each, whatever the records hold.
\<close>

theorem fixed_literal_lists:
  assumes "getItem st ''patientId'' = Some ident" and "ident \<noteq> []"
  shows "\<exists>rep. report (loadPage st (Inr (Response (Inr (JsonArray data))))) = Some rep \<and>
    keyFindings rep =
      [''Elevated bilirubin levels (2.5 mg/dL)'', ''Normal albumin levels'',
       ''Platelet count within range'', ''Slightly elevated prothrombin time''] \<and>
    recommendations rep =
      [''Regular monitoring of liver function tests'',
       ''Maintain healthy diet and exercise routine'', ''Avoid alcohol consumption'',
       ''Schedule follow-up in 3 months''] \<and>
    nextSteps rep =
      [''Book appointment with hepatologist'', ''Complete follow-up blood tests'',
       ''Join liver health support group'', ''Download patient education materials'']"
  using loadPage_resolved [OF assms, of data]
  by (simp add: toReport_def defaultKeyFindings_def defaultRecommendations_def
      defaultNextSteps_def)

theorem fixed_literal_lists_witness:
  "\<exists>rep. report (loadPage [''patientId'' \<mapsto> ''7'']
       (Inr (Response (Inr (JsonArray [\<lparr>Patient_ID = Some ''7'', Name = Some ''Asha'',
          Age = Some (Finite 52), Report_Date = Some ''2024-01-15'',
          riskScore = Some (Finite 71)\<rparr>]))))) = Some rep \<and>
    keyFindings rep =
      [''Elevated bilirubin levels (2.5 mg/dL)'', ''Normal albumin levels'',
       ''Platelet count within range'', ''Slightly elevated prothrombin time''] \<and>
    recommendations rep =
      [''Regular monitoring of liver function tests'',
       ''Maintain healthy diet and exercise routine'', ''Avoid alcohol consumption'',
       ''Schedule follow-up in 3 months''] \<and>
    nextSteps rep =
      [''Book appointment with hepatologist'', ''Complete follow-up blood tests'',
       ''Join liver health support group'', ''Download patient education materials'']"
proof -
  have "''7'' \<noteq> []" by simp
  from fixed_literal_lists [OF example_storage this] show ?thesis .
qed

subsection \<open>The guard on the session identifier\<close>

text \<open>
  C4. When session storage holds no patient identifier at mount, the effect navigates to
  \<^verbatim>\<open>/login\<close> and starts no request: the navigation is the only thing the page does,
  and no fetch appears in its log whatever the server would have answered.
\<close>

theorem no_identifier_redirects:
  assumes "getItem st ''patientId'' = None"
  shows "mountEffect st initial = (initial\<lparr>effects := [Navigate ''/login'']\<rparr>, False) \<and>
    effects (loadPage st outcome) = [Navigate ''/login''] \<and>
    (\<forall>url. Fetch url \<notin> set (effects (loadPage st outcome)))"
proof -
  from assms have f: "falsy (getItem st ''patientId'')" by (simp add: falsy_def)
  show ?thesis
    using mountEffect_absent [OF f, of initial] loadPage_absent [OF f, of outcome]
    by (simp add: initial_def)
qed

theorem no_identifier_redirects_witness:
  "effects (loadPage Map.empty (Inr (Response (Inr (JsonArray []))))) = [Navigate ''/login'']"
  using no_identifier_redirects [of Map.empty "Inr (Response (Inr (JsonArray [])))"]
  by (simp add: getItem_def)

subsection \<open>A failed request\<close>

text \<open>
  C8. When the request is rejected (a network failure) or the body does not parse, loading
  ends, the view-model stays \<^verbatim>\<open>null\<close>, the error is written to the console, the page
  has made its one request and no other, and what is rendered is the fixed "Report Not
  Found" screen, the same for every error.
\<close>

theorem fetch_failure_shows_not_found:
  assumes "getItem st ''patientId'' = Some ident" and "ident \<noteq> []"
    and "outcome = Inl err \<or> outcome = Inr (Response (Inl err))"
  shows "loading (loadPage st outcome) = False \<and>
    report (loadPage st outcome) = None \<and>
    effects (loadPage st outcome) = [Fetch (requestUrl ident), ConsoleError err] \<and>
    render toFixed1 (loadPage st outcome) =
      NotFound ''Report Not Found'' ''The requested health report could not be found.''"
  using loadPage_rejected [OF assms] by (simp add: render_def)

theorem fetch_failure_shows_not_found_witness:
  "loadPage [''patientId'' \<mapsto> ''7''] (Inl (TypeError ''Failed to fetch'')) =
     \<lparr>report = None, patientData = None, loading = False,
      effects = [Fetch ''http://localhost:3001/liverData/?Patient_ID=7'',
                 ConsoleError (TypeError ''Failed to fetch'')]\<rparr> \<and>
   render (\<lambda>n. ''0.0'')
       (loadPage [''patientId'' \<mapsto> ''7'']
          (Inr (Response (Inl (SyntaxError ''Unexpected token''))))) =
     NotFound ''Report Not Found'' ''The requested health report could not be found.''"
  using
    fetch_failure_shows_not_found [of "[''patientId'' \<mapsto> ''7'']" "''7''"
      "Inl (TypeError ''Failed to fetch'')" "TypeError ''Failed to fetch''" "\<lambda>n. ''0.0''"]
    fetch_failure_shows_not_found [of "[''patientId'' \<mapsto> ''7'']" "''7''"
      "Inr (Response (Inl (SyntaxError ''Unexpected token'')))" "SyntaxError ''Unexpected token''"
      "\<lambda>n. ''0.0''"]
  by (simp add: getItem_def requestUrl_def loadPage_def mountEffect_def falsy_def nullish_def
      settle_def onError_def initial_def)

section \<open>Facts about the renderer\<close>

lemma riskClass_Finite:
  "riskScore p = Some (Finite x) \<Longrightarrow>
     riskClass (Some p) =
       (if 70 < x then ''text-red-600''
        else if 40 < x then ''text-yellow-600'' else ''text-green-600'')"
  by (simp add: riskClass_def chain_def nullish_def)

lemma render_riskClass:
  "\<not> loading pg \<Longrightarrow> report pg = Some rep \<Longrightarrow>
     \<exists>v. render toFixed1 pg = ReportView v \<and> riskClassName v = riskClass (patientData pg)"
  by (simp add: render_def)

text \<open>
  C2. The high tier is the class \<^verbatim>\<open>text-red-600\<close>, the medium tier
  \<^verbatim>\<open>text-yellow-600\<close> and the low tier \<^verbatim>\<open>text-green-600\<close>. A finite score above 70
  is high, one above 40 and at most 70 is medium, any other is low; positive infinity is
  high; negative infinity, NaN and a missing score (read as 0) are low. The report screen
  carries that class.
\<close>

theorem risk_score_tiers:
  "(riskScore p = Some (Finite x) \<longrightarrow>
      (70 < x \<longrightarrow> riskClass (Some p) = ''text-red-600'') \<and>
      (40 < x \<and> x \<le> 70 \<longrightarrow> riskClass (Some p) = ''text-yellow-600'') \<and>
      (x \<le> 40 \<longrightarrow> riskClass (Some p) = ''text-green-600'')) \<and>
   (riskScore p = Some PosInfinity \<longrightarrow> riskClass (Some p) = ''text-red-600'') \<and>
   (riskScore p = Some NegInfinity \<longrightarrow> riskClass (Some p) = ''text-green-600'') \<and>
   (riskScore p = Some NaN \<longrightarrow> riskClass (Some p) = ''text-green-600'') \<and>
   (riskScore p = None \<longrightarrow> riskClass (Some p) = ''text-green-600'') \<and>
   riskClass None = ''text-green-600'' \<and>
   (\<not> loading pg \<and> report pg = Some rep \<longrightarrow>
      (\<exists>v. render toFixed1 pg = ReportView v \<and> riskClassName v = riskClass (patientData pg)))"
proof -
  have "riskClass (Some p) = ''text-red-600''" if "riskScore p = Some PosInfinity"
    using that by (simp add: riskClass_def chain_def nullish_def)
  moreover have "riskClass (Some p) = ''text-green-600''" if "riskScore p = Some NegInfinity"
    using that by (simp add: riskClass_def chain_def nullish_def)
  moreover have "riskClass (Some p) = ''text-green-600''" if "riskScore p = Some NaN"
    using that by (simp add: riskClass_def chain_def nullish_def)
  moreover have "riskClass (Some p) = ''text-green-600''" if "riskScore p = None"
    using that by (simp add: riskClass_def chain_def nullish_def)
  moreover have "riskClass None = ''text-green-600''"
    by (simp add: riskClass_def chain_def nullish_def)
  ultimately show ?thesis
    using render_riskClass [of pg rep toFixed1] by (simp add: riskClass_Finite)
qed

theorem risk_score_tiers_witness:
  "riskClass (Some \<lparr>Patient_ID = Some ''7'', Name = Some ''Asha'', Age = Some (Finite 52),
       Report_Date = Some ''2024-01-15'', riskScore = Some (Finite 71)\<rparr>) = ''text-red-600'' \<and>
   riskClass (Some \<lparr>Patient_ID = Some ''7'', Name = Some ''Asha'', Age = Some (Finite 52),
       Report_Date = Some ''2024-01-15'', riskScore = Some (Finite 40)\<rparr>) = ''text-green-600'' \<and>
   riskClass (Some \<lparr>Patient_ID = Some ''7'', Name = Some ''Asha'', Age = Some (Finite 52),
       Report_Date = Some ''2024-01-15'', riskScore = Some (Finite 0)\<rparr>) = ''text-green-600'' \<and>
   riskClass (Some \<lparr>Patient_ID = Some ''7'', Name = Some ''Asha'', Age = Some (Finite 52),
       Report_Date = Some ''2024-01-15'', riskScore = Some (Finite 55.5)\<rparr>) = ''text-yellow-600'' \<and>
   (\<exists>v. render (\<lambda>n. ''71.0'')
        \<lparr>report = Some (toReport (Some \<lparr>Patient_ID = Some ''7'', Name = Some ''Asha'',
           Age = Some (Finite 52), Report_Date = Some ''2024-01-15'',
           riskScore = Some (Finite 71)\<rparr>)),
         patientData = Some \<lparr>Patient_ID = Some ''7'', Name = Some ''Asha'',
           Age = Some (Finite 52), Report_Date = Some ''2024-01-15'',
           riskScore = Some (Finite 71)\<rparr>,
         loading = False, effects = []\<rparr> = ReportView v \<and>
      riskClassName v = ''text-red-600'')"
  using
    risk_score_tiers [of "\<lparr>Patient_ID = Some ''7'', Name = Some ''Asha'', Age = Some (Finite 52),
       Report_Date = Some ''2024-01-15'', riskScore = Some (Finite 71)\<rparr>" 71
       "\<lparr>report = Some (toReport (Some \<lparr>Patient_ID = Some ''7'', Name = Some ''Asha'',
           Age = Some (Finite 52), Report_Date = Some ''2024-01-15'',
           riskScore = Some (Finite 71)\<rparr>)),
         patientData = Some \<lparr>Patient_ID = Some ''7'', Name = Some ''Asha'',
           Age = Some (Finite 52), Report_Date = Some ''2024-01-15'',
           riskScore = Some (Finite 71)\<rparr>,
         loading = False, effects = []\<rparr>"
       "toReport (Some \<lparr>Patient_ID = Some ''7'', Name = Some ''Asha'',
           Age = Some (Finite 52), Report_Date = Some ''2024-01-15'',
           riskScore = Some (Finite 71)\<rparr>)" "\<lambda>n. ''71.0''"]
    risk_score_tiers [of "\<lparr>Patient_ID = Some ''7'', Name = Some ''Asha'', Age = Some (Finite 52),
       Report_Date = Some ''2024-01-15'', riskScore = Some (Finite 40)\<rparr>" 40]
    risk_score_tiers [of "\<lparr>Patient_ID = Some ''7'', Name = Some ''Asha'', Age = Some (Finite 52),
       Report_Date = Some ''2024-01-15'', riskScore = Some (Finite 0)\<rparr>" 0]
    risk_score_tiers [of "\<lparr>Patient_ID = Some ''7'', Name = Some ''Asha'', Age = Some (Finite 52),
       Report_Date = Some ''2024-01-15'', riskScore = Some (Finite 55.5)\<rparr>" "55.5"]
  by auto

text \<open>
  C10. A score of exactly 70 is in the medium tier (\<^verbatim>\<open>text-yellow-600\<close>), not the high
  one: a finite score is in the high tier (\<^verbatim>\<open>text-red-600\<close>) exactly when it is
  strictly greater than 70.
\<close>

theorem score_70_is_medium:
  "(riskScore p = Some (Finite 70) \<longrightarrow>
      riskClass (Some p) = ''text-yellow-600'' \<and> riskClass (Some p) \<noteq> ''text-red-600'') \<and>
   (riskScore p = Some (Finite x) \<longrightarrow> (riskClass (Some p) = ''text-red-600'') = (70 < x))"
  by (simp add: riskClass_Finite)

theorem score_70_is_medium_witness:
  "riskClass (Some \<lparr>Patient_ID = Some ''7'', Name = Some ''Asha'', Age = Some (Finite 52),
       Report_Date = Some ''2024-01-15'', riskScore = Some (Finite 70)\<rparr>) = ''text-yellow-600'' \<and>
   riskClass (Some \<lparr>Patient_ID = Some ''7'', Name = Some ''Asha'', Age = Some (Finite 52),
       Report_Date = Some ''2024-01-15'', riskScore = Some (Finite 70)\<rparr>) \<noteq> ''text-red-600''"
  using score_70_is_medium [of "\<lparr>Patient_ID = Some ''7'', Name = Some ''Asha'',
       Age = Some (Finite 52), Report_Date = Some ''2024-01-15'', riskScore = Some (Finite 70)\<rparr>" 70]
  by simp

section \<open>Facts about the exporter\<close>

lemma fold_emitItem:
  "fold emitItem items (doc, y) = (doc @ spec_bullets items y, y + 10 * int (length items))"
proof (induction items arbitrary: doc y)
  case Nil
  show ?case by simp
next
  case (Cons item items)
  have "fold emitItem (item # items) (doc, y) =
      fold emitItem items (doc @ [Text (bullet @ '' '' @ item) 25 y], y + 10)"
    by (simp add: emitItem_def)
  also have "\<dots> = ((doc @ [Text (bullet @ '' '' @ item) 25 y]) @ spec_bullets items (y + 10),
      (y + 10) + 10 * int (length items))"
    by (rule Cons.IH)
  finally show ?case by (simp add: bullet_def)
qed

lemma addSection_spec:
  "addSection title items (doc, y) = (doc @ spec_section title items y, spec_section_end items y)"
  by (simp add: addSection_def fold_emitItem spec_section_def spec_section_end_def)

lemma buildDocument_spec:
  "fst (buildDocument toStr toFixed1 rep) = spec_document toStr toFixed1 rep"
  by (simp add: buildDocument_def addSection_spec spec_document_def)

lemma spec_bullets_length: "length (spec_bullets items y) = length items"
  by (induction items arbitrary: y) simp_all

lemma spec_bullets_nth:
  "i < length items \<Longrightarrow>
     spec_bullets items y ! i =
       Text ([CHR 0xE2, CHR 0x80, CHR 0xA2] @ '' '' @ items ! i) 25 (y + 10 * int i)"
proof (induction items arbitrary: y i)
  case Nil
  then show ?case by simp
next
  case (Cons item items)
  show ?case
  proof (cases i)
    case 0
    then show ?thesis by simp
  next
    case (Suc j)
    with Cons.prems have "j < length items" by simp
    from Cons.IH [OF this, of "y + 10"] Suc show ?thesis by (simp add: algebra_simps)
  qed
qed

text \<open>
  C5. With no view-model loaded, \<^verbatim>\<open>generatePDF\<close> returns at once: the page and its
  log are unchanged, so no document is built and nothing is saved.
\<close>

theorem export_without_report_is_noop:
  assumes "report pg = None"
  shows "generatePDF toStr toFixed1 st pg = pg \<and>
    effects (generatePDF toStr toFixed1 st pg) = effects pg"
  using assms by (simp add: generatePDF_def)

theorem export_without_report_is_noop_witness:
  "generatePDF (\<lambda>n. ''0'') (\<lambda>n. ''0.0'') [''patientId'' \<mapsto> ''7''] initial = initial"
proof -
  have "report initial = None" by (simp add: initial_def)
  from export_without_report_is_noop [OF this] show ?thesis by simp
qed

text \<open>
  C6. For every loaded view-model the saved document is the one the specification
  describes: the title at height 20, the four labelled fields (patient, age, assessment
  date, risk score) at heights 40, 50, 60 and 70, then the sections Key Findings,
  Recommendations and Next Steps in that order, the first starting at height 90. A section
  that starts at height \<open>y\<close> has its heading at \<open>y\<close> and its item number \<open>i\<close>
  (from 0) at \<open>y + 10 + 10 * i\<close>, written after the bullet character U+2022 (the bytes
  E2 80 A2) and a space: the cursor moves down 10 after the heading and after every item,
  and 10 more after the section, where the next section starts.
\<close>

theorem export_document_layout:
  assumes "report pg = Some rep"
  shows "effects (generatePDF toStr toFixed1 st pg) =
      effects pg @ [Save (fileName st) (spec_document toStr toFixed1 rep)] \<and>
    (\<forall>title items y.
       length (spec_section title items y) = 3 + length items \<and>
       spec_section title items y ! 1 = Text title 20 y \<and>
       (\<forall>i < length items.
          spec_section title items y ! (3 + i) =
            Text ([CHR 0xE2, CHR 0x80, CHR 0xA2] @ '' '' @ items ! i) 25
              (y + 10 + 10 * int i)) \<and>
       spec_section_end items y = y + 10 * (int (length items) + 1) + 10)"
proof -
  have "effects (generatePDF toStr toFixed1 st pg) =
      effects pg @ [Save (fileName st) (spec_document toStr toFixed1 rep)]"
    using assms by (simp add: generatePDF_def buildDocument_spec)
  moreover have "length (spec_section title items y) = 3 + length items" for title items y
    by (simp add: spec_section_def spec_bullets_length)
  moreover have "spec_section title items y ! 1 = Text title 20 y" for title items y
    by (simp add: spec_section_def)
  moreover have "spec_section title items y ! (3 + i) =
      Text ([CHR 0xE2, CHR 0x80, CHR 0xA2] @ '' '' @ items ! i) 25 (y + 10 + 10 * int i)"
    if "i < length items" for title items y i
    using spec_bullets_nth [OF that, of "y + 10"]
    by (simp add: spec_section_def nth_append numeral_3_eq_3)
  moreover have "spec_section_end items y = y + 10 * (int (length items) + 1) + 10" for items y
    by (simp add: spec_section_end_def)
  ultimately show ?thesis by blast
qed

theorem export_document_layout_witness:
  "effects
     (generatePDF (\<lambda>n. ''52'') (\<lambda>n. ''55.5'') [''patientId'' \<mapsto> ''7'']
        (loadPage [''patientId'' \<mapsto> ''7'']
           (Inr (Response (Inr (JsonArray [\<lparr>Patient_ID = Some ''7'', Name = Some ''Asha'',
              Age = Some (Finite 52), Report_Date = Some ''2024-01-15'',
              riskScore = Some (Finite 55.5)\<rparr>])))))) =
   [Fetch ''http://localhost:3001/liverData/?Patient_ID=7'',
    Save ''liver-health-report-7.pdf''
      [SetFontSize 20,
       Text ''Liver Health Assessment Report'' 20 20,
       SetFontSize 12,
       Text ''Patient: Asha'' 20 40,
       Text ''Age: 52'' 20 50,
       Text ''Assessment Date: 2024-01-15'' 20 60,
       Text ''Risk Score: 55.5%'' 20 70,
       SetFontSize 14,
       Text ''Key Findings'' 20 90,
       SetFontSize 12,
       Text ([CHR 0xE2, CHR 0x80, CHR 0xA2] @ '' Elevated bilirubin levels (2.5 mg/dL)'') 25 100,
       Text ([CHR 0xE2, CHR 0x80, CHR 0xA2] @ '' Normal albumin levels'') 25 110,
       Text ([CHR 0xE2, CHR 0x80, CHR 0xA2] @ '' Platelet count within range'') 25 120,
       Text ([CHR 0xE2, CHR 0x80, CHR 0xA2] @ '' Slightly elevated prothrombin time'') 25 130,
       SetFontSize 14,
       Text ''Recommendations'' 20 150,
       SetFontSize 12,
       Text ([CHR 0xE2, CHR 0x80, CHR 0xA2] @ '' Regular monitoring of liver function tests'') 25 160,
       Text ([CHR 0xE2, CHR 0x80, CHR 0xA2] @ '' Maintain healthy diet and exercise routine'') 25 170,
       Text ([CHR 0xE2, CHR 0x80, CHR 0xA2] @ '' Avoid alcohol consumption'') 25 180,
       Text ([CHR 0xE2, CHR 0x80, CHR 0xA2] @ '' Schedule follow-up in 3 months'') 25 190,
       SetFontSize 14,
       Text ''Next Steps'' 20 210,
       SetFontSize 12,
       Text ([CHR 0xE2, CHR 0x80, CHR 0xA2] @ '' Book appointment with hepatologist'') 25 220,
       Text ([CHR 0xE2, CHR 0x80, CHR 0xA2] @ '' Complete follow-up blood tests'') 25 230,
       Text ([CHR 0xE2, CHR 0x80, CHR 0xA2] @ '' Join liver health support group'') 25 240,
       Text ([CHR 0xE2, CHR 0x80, CHR 0xA2] @ '' Download patient education materials'') 25 250]]"
proof -
  let ?st = "[''patientId'' \<mapsto> ''7'']"
  let ?p = "\<lparr>Patient_ID = Some ''7'', Name = Some ''Asha'', Age = Some (Finite 52),
     Report_Date = Some ''2024-01-15'', riskScore = Some (Finite 55.5)\<rparr>"
  let ?pg = "loadPage ?st (Inr (Response (Inr (JsonArray [?p]))))"
  have pg: "?pg = \<lparr>report = Some (toReport (Some ?p)), patientData = Some ?p, loading = False,
      effects = [Fetch ''http://localhost:3001/liverData/?Patient_ID=7'']\<rparr>"
    by (simp add: loadPage_def mountEffect_def getItem_def falsy_def nullish_def requestUrl_def
        settle_def onData_def elementAt0_def index0_def initial_def)
  then have rep: "report ?pg = Some (toReport (Some ?p))" by simp
  from export_document_layout [OF rep, of "\<lambda>n. ''52''" "\<lambda>n. ''55.5''" ?st]
  have saved: "effects (generatePDF (\<lambda>n. ''52'') (\<lambda>n. ''55.5'') ?st ?pg) =
      effects ?pg @ [Save (fileName ?st)
        (spec_document (\<lambda>n. ''52'') (\<lambda>n. ''55.5'') (toReport (Some ?p)))]"
    by blast
  have name: "fileName ?st = ''liver-health-report-7.pdf''"
    by (simp add: fileName_def getItem_def nullish_def)
  have before: "effects ?pg = [Fetch ''http://localhost:3001/liverData/?Patient_ID=7'']"
    unfolding pg by simp
  show ?thesis
    unfolding saved name before
    by (simp add: spec_document_def spec_section_def spec_section_end_def toReport_def
        chain_def nullish_def defaultKeyFindings_def defaultRecommendations_def
        defaultNextSteps_def)
qed

text \<open>
  C7. For every loaded view-model the export saves one file. Its name is
  \<^verbatim>\<open>liver-health-report-<identifier>.pdf\<close> when session storage holds an identifier at
  the time of the export, and \<^verbatim>\<open>liver-health-report-report.pdf\<close> when it holds none.
\<close>

theorem export_file_name:
  assumes "report pg = Some rep"
  shows "effects (generatePDF toStr toFixed1 st pg) =
      effects pg @
        [Save (case getItem st ''patientId'' of
                 Some ident \<Rightarrow> ''liver-health-report-'' @ ident @ ''.pdf''
               | None \<Rightarrow> ''liver-health-report-report.pdf'')
           (fst (buildDocument toStr toFixed1 rep))]"
  using assms by (simp add: generatePDF_def fileName_def nullish_def split: option.splits)

theorem export_file_name_witness:
  "effects (generatePDF (\<lambda>n. ''0'') (\<lambda>n. ''0.0'') [''patientId'' \<mapsto> ''7'']
      \<lparr>report = Some (toReport None), patientData = None, loading = False,
       effects = [Fetch ''http://localhost:3001/liverData/?Patient_ID=7'']\<rparr>) =
     [Fetch ''http://localhost:3001/liverData/?Patient_ID=7'',
      Save ''liver-health-report-7.pdf''
        (fst (buildDocument (\<lambda>n. ''0'') (\<lambda>n. ''0.0'') (toReport None)))] \<and>
   effects (generatePDF (\<lambda>n. ''0'') (\<lambda>n. ''0.0'') Map.empty
      \<lparr>report = Some (toReport None), patientData = None, loading = False,
       effects = [Fetch ''http://localhost:3001/liverData/?Patient_ID=7'']\<rparr>) =
     [Fetch ''http://localhost:3001/liverData/?Patient_ID=7'',
      Save ''liver-health-report-report.pdf''
        (fst (buildDocument (\<lambda>n. ''0'') (\<lambda>n. ''0.0'') (toReport None)))]"
  using
    export_file_name [of
      "\<lparr>report = Some (toReport None), patientData = None, loading = False,
       effects = [Fetch ''http://localhost:3001/liverData/?Patient_ID=7'']\<rparr>"
      "toReport None" "\<lambda>n. ''0''" "\<lambda>n. ''0.0''" "[''patientId'' \<mapsto> ''7'']"]
    export_file_name [of
      "\<lparr>report = Some (toReport None), patientData = None, loading = False,
       effects = [Fetch ''http://localhost:3001/liverData/?Patient_ID=7'']\<rparr>"
      "toReport None" "\<lambda>n. ''0''" "\<lambda>n. ''0.0''" Map.empty]
  by (simp add: getItem_def)

end
